theory Spec2Isabelle
  imports Main
begin

section \<open>Strings, trimming and the regular expressions of the source\<close>

text \<open>
  A JavaScript string is modelled as the list of its code units; the model covers the
  code units below 256, one \<^typ>\<open>char\<close> each. Among them the white space of
  \<^verbatim>\<open>String.prototype.trim\<close> and of the class \<^verbatim>\<open>\s\<close> is TAB, LF, VT, FF, CR, SPACE
  and NBSP; the class \<^verbatim>\<open>\d\<close> is the ten ASCII digits.
\<close>

definition isSpace :: "char \<Rightarrow> bool" where
  "isSpace c = (c \<in> set [CHR 0x09, CHR 0x0A, CHR 0x0B, CHR 0x0C, CHR 0x0D, CHR 0x20, CHR 0xA0])"

definition isDigit :: "char \<Rightarrow> bool" where
  "isDigit c = (c \<in> set ''0123456789'')"

definition trim :: "string \<Rightarrow> string" where
  "trim s = rev (dropWhile isSpace (rev (dropWhile isSpace s)))"

text \<open>\<^verbatim>\<open>!s.trim()\<close>: the empty string is the only falsy string.\<close>

definition blank :: "string \<Rightarrow> bool" where
  "blank s = (trim s = [])"

text \<open>
  The regular expressions of the source are all of one shape: anchored at both ends, a
  sequence of character classes, each with a quantifier. An item is the class, the least
  and the greatest number of repetitions (\<open>None\<close> for no upper bound). A string matches
  when it splits into consecutive pieces, one for each item; \<^verbatim>\<open>RegExp.prototype.test\<close>
  backtracks over every split.
\<close>

type_synonym item = "(char \<Rightarrow> bool) \<times> nat \<times> nat option"

fun test :: "item list \<Rightarrow> string \<Rightarrow> bool" where
  "test [] s = (s = [])"
| "test ((cls, lo, hi) # r) s =
     list_ex (\<lambda>k. list_all cls (take k s) \<and> test r (drop k s))
       [lo ..< Suc (case hi of None \<Rightarrow> length s | Some h \<Rightarrow> min h (length s))]"

declare test.simps(2) [simp del]

definition once :: "(char \<Rightarrow> bool) \<Rightarrow> item" where
  "once cls = (cls, 1, Some 1)"

definition oneOrMore :: "(char \<Rightarrow> bool) \<Rightarrow> item" where
  "oneOrMore cls = (cls, 1, None)"

text \<open>\<^verbatim>\<open>/^[^\s@]+@[^\s@]+\.[^\s@]+$/\<close>\<close>

definition emailRegex :: "item list" where
  "emailRegex =
     [oneOrMore (\<lambda>c. \<not> isSpace c \<and> c \<noteq> CHR ''@''), once (\<lambda>c. c = CHR ''@''),
      oneOrMore (\<lambda>c. \<not> isSpace c \<and> c \<noteq> CHR ''@''), once (\<lambda>c. c = CHR ''.''),
      oneOrMore (\<lambda>c. \<not> isSpace c \<and> c \<noteq> CHR ''@'')]"

text \<open>\<^verbatim>\<open>/^[\+]?[1-9][\d]{0,15}$/\<close>\<close>

definition phoneRegex :: "item list" where
  "phoneRegex =
     [(\<lambda>c. c = CHR ''+'', 0, Some 1), once (\<lambda>c. c \<in> set ''123456789''),
      (isDigit, 0, Some 15)]"

text \<open>\<^verbatim>\<open>/^\d{4}-\d{2}-\d{2}$/\<close>\<close>

definition birthDateRegex :: "item list" where
  "birthDateRegex =
     [(isDigit, 4, Some 4), once (\<lambda>c. c = CHR ''-''), (isDigit, 2, Some 2),
      once (\<lambda>c. c = CHR ''-''), (isDigit, 2, Some 2)]"

text \<open>\<^verbatim>\<open>phone.replace(/[\s\-\(\)]/g, "")\<close>\<close>

definition stripSeparators :: "string \<Rightarrow> string" where
  "stripSeparators s = filter (\<lambda>c. \<not> (isSpace c \<or> c \<in> set ''-()'')) s"

section \<open>The resource\<close>

text \<open>
  The value of the property \<^verbatim>\<open>given\<close> of a name, when it is truthy: the array of given
  names that a well formed resource has, or some other value (a string, a number, an
  object), which has no \<^verbatim>\<open>join\<close>. A falsy value counts as a missing property.
\<close>

datatype given_value = GivenNames "string list" | NotAnArray

record humanName =
  name_use :: "string option"
  family :: "string option"
  given :: "given_value option"

record contactPoint =
  system :: string
  contact_value :: string
  contact_use :: string

record addressEntry =
  address_use :: string
  address_type :: string
  address_text :: string

text \<open>A property that the object does not have is \<open>None\<close>.\<close>

record patient =
  resourceType :: "string option"
  resource_id :: "string option"
  active :: "bool option"
  name :: "humanName list option"
  gender :: "string option"
  birthDate :: "string option"
  telecom :: "contactPoint list option"
  address :: "addressEntry list option"

section \<open>The environment: clock, date parser, transport, confirmation dialog\<close>

datatype http_method = GET | POST | PUT | DELETE

record request =
  http_method :: http_method
  url :: string
  body :: "patient option"

text \<open>
  A response that arrived: its status line, and what \<^verbatim>\<open>text()\<close> and \<^verbatim>\<open>json()\<close> give.
  \<open>None\<close> stands for a call that rejects and, for \<^verbatim>\<open>json()\<close>, also for the value
  \<^verbatim>\<open>null\<close>, on which every property access throws; every other body is taken to be an
  object with the properties of \<open>patient\<close>.
\<close>

record http_response =
  status :: nat
  statusText :: string
  body_text :: "string option"
  body_json :: "patient option"

datatype response = Rejected string | Resolved http_response

definition ok :: "http_response \<Rightarrow> bool" where
  "ok r = (200 \<le> status r \<and> status r \<le> 299)"

text \<open>
  \<open>now\<close> is the time value of \<^verbatim>\<open>new Date()\<close>, in milliseconds since the epoch;
  \<open>parseDate\<close> is the time value of \<^verbatim>\<open>new Date(string)\<close>, \<open>None\<close> for NaN;
  \<open>fetch\<close> answers a request; \<open>confirm\<close> is the answer of the dialog that asks about
  the deletion of the patient with the given id.
\<close>

record env =
  now :: int
  parseDate :: "string \<Rightarrow> int option"
  fetch :: "request \<Rightarrow> response"
  confirm :: "string \<Rightarrow> bool"

section \<open>createPatientResource\<close>

text \<open>\<^verbatim>\<open>document.getElementById(id)?.value || ""\<close> on the values of the page's elements.\<close>

definition fieldValue :: "(string \<rightharpoonup> string) \<Rightarrow> string \<Rightarrow> string" where
  "fieldValue doc k = (case doc k of None \<Rightarrow> [] | Some v \<Rightarrow> v)"

text \<open>The calls of \<^verbatim>\<open>showError\<close> in \<^verbatim>\<open>createPatientResource\<close>, in the order of the source.\<close>

datatype validation_error =
    FirstNameEmpty
  | LastNameEmpty
  | GenderEmpty
  | BirthDateEmpty
  | BirthDateInvalid
  | BirthDateInFuture
  | EmailInvalid
  | PhoneInvalid

definition assemble :: "string \<Rightarrow> string \<Rightarrow> string \<Rightarrow> string \<Rightarrow> string \<Rightarrow> string \<Rightarrow> string \<Rightarrow> patient"
  where
  "assemble firstName lastName gender' birthDate' phone email address' =
     (let patient =
            \<lparr>resourceType = Some ''Patient'', resource_id = None, active = Some True,
             name = Some [\<lparr>name_use = Some ''official'', family = Some lastName,
                           given = Some (GivenNames [firstName])\<rparr>],
             gender = Some gender', birthDate = None, telecom = Some [], address = None\<rparr>;
          patient = (if birthDate' \<noteq> [] then patient\<lparr>birthDate := Some birthDate'\<rparr> else patient);
          patient =
            (if phone \<noteq> []
             then patient\<lparr>telecom := map_option (\<lambda>t. t @ [\<lparr>system = ''phone'',
                    contact_value = phone, contact_use = ''home''\<rparr>]) (telecom patient)\<rparr>
             else patient);
          patient =
            (if email \<noteq> []
             then patient\<lparr>telecom := map_option (\<lambda>t. t @ [\<lparr>system = ''email'',
                    contact_value = email, contact_use = ''home''\<rparr>]) (telecom patient)\<rparr>
             else patient);
          patient =
            (if address' \<noteq> []
             then patient\<lparr>address := Some [\<lparr>address_use = ''home'', address_type = ''both'',
                    address_text = address'\<rparr>]\<rparr>
             else patient)
      in patient)"

definition createPatientResource :: "env \<Rightarrow> (string \<rightharpoonup> string) \<Rightarrow> validation_error + patient"
  where
  "createPatientResource e doc =
     (let firstName = fieldValue doc ''firstName'';
          lastName = fieldValue doc ''lastName'';
          gender' = fieldValue doc ''gender'';
          birthDate' = fieldValue doc ''birthDate'';
          phone = fieldValue doc ''phone'';
          email = fieldValue doc ''email'';
          address' = fieldValue doc ''address''
      in if trim firstName = [] then Inl FirstNameEmpty
         else if trim lastName = [] then Inl LastNameEmpty
         else if trim gender' = [] then Inl GenderEmpty
         else if trim birthDate' = [] then Inl BirthDateEmpty
         else if birthDate' \<noteq> [] \<and> parseDate e birthDate' = None then Inl BirthDateInvalid
         else if birthDate' \<noteq> [] \<and> (case parseDate e birthDate' of None \<Rightarrow> False | Some t \<Rightarrow> now e < t)
           then Inl BirthDateInFuture
         else if trim email \<noteq> [] \<and> \<not> test emailRegex (trim email) then Inl EmailInvalid
         else if trim phone \<noteq> [] \<and> \<not> test phoneRegex (stripSeparators phone) then Inl PhoneInvalid
         else Inr (assemble firstName lastName gender' birthDate' phone email address'))"

section \<open>Calendar dates\<close>

text \<open>
  The platform's date parser is a parameter of the model (\<open>parseDate\<close>). What ECMAScript
  fixes for it is the date-only form \<^verbatim>\<open>YYYY-MM-DD\<close>: the string of a calendar date is
  read as midnight UTC of that day. \<open>isoDate\<close> gives the day such a string denotes, as
  the number of days since 1 January 1970, by the proleptic Gregorian calendar.
\<close>

definition msPerDay :: int where
  "msPerDay = 86400000"

definition number :: "string \<Rightarrow> int" where
  "number s = foldl (\<lambda>n c. 10 * n + (int (of_char c) - 48)) 0 s"

definition isLeapYear :: "int \<Rightarrow> bool" where
  "isLeapYear y = (y mod 4 = 0 \<and> (y mod 100 \<noteq> 0 \<or> y mod 400 = 0))"

definition daysInMonth :: "int \<Rightarrow> int \<Rightarrow> int" where
  "daysInMonth y m =
     (if m = 2 then (if isLeapYear y then 29 else 28)
      else if m \<in> set [4, 6, 9, 11] then 30 else 31)"

definition daysFromCivil :: "int \<Rightarrow> int \<Rightarrow> int \<Rightarrow> int" where
  "daysFromCivil y m d =
     (let y' = (if m \<le> 2 then y - 1 else y);
          era = y' div 400;
          yoe = y' - era * 400;
          doy = (153 * (if m > 2 then m - 3 else m + 9) + 2) div 5 + d - 1;
          doe = yoe * 365 + yoe div 4 - yoe div 100 + doy
      in era * 146097 + doe - 719468)"

definition isoDate :: "string \<Rightarrow> int option" where
  "isoDate s =
     (if test birthDateRegex s
      then (let y = number (take 4 s); m = number (take 2 (drop 5 s)); d = number (drop 8 s)
            in if 1 \<le> m \<and> m \<le> 12 \<and> 1 \<le> d \<and> d \<le> daysInMonth y m
               then Some (daysFromCivil y m d) else None)
      else None)"



section \<open>The session: the manager's fields, the page, the requests sent\<close>

text \<open>
  \<open>baseUrl\<close>, \<open>patients\<close> and \<open>selectedPatient\<close> are the fields of the manager;
  \<open>document\<close> holds the value of each input element of the page, by element id;
  \<open>sent\<close> records every call of \<^verbatim>\<open>fetch\<close>, in order.
\<close>

record session =
  baseUrl :: string
  patients :: "patient list"
  selectedPatient :: "patient option"
  document :: "string \<rightharpoonup> string"
  sent :: "request list"

text \<open>What an operation reports to the page: one constructor for each call site.\<close>

datatype failure = HttpStatus nat string | NetworkError string | BodyError | TypeError

datatype outcome =
    NotInitialized
  | Invalid validation_error
  | NoPatientSelected
  | MissingId
  | Cancelled
  | NotFound string
  | Failed failure
  | Created patient
  | Found patient
  | Updated patient
  | Deleted string

fun failed :: "outcome \<Rightarrow> bool" where
  "failed (Created _) = False"
| "failed (Found _) = False"
| "failed (Updated _) = False"
| "failed (Deleted _) = False"
| "failed Cancelled = False"
| "failed _ = True"

fun succeeded :: "outcome \<Rightarrow> bool" where
  "succeeded (Created _) = True"
| "succeeded (Found _) = True"
| "succeeded (Updated _) = True"
| "succeeded (Deleted _) = True"
| "succeeded _ = False"

text \<open>\<^verbatim>\<open>.replace(/\/$/, "")\<close>: one slash, at the very end.\<close>

definition removeTrailingSlash :: "string \<Rightarrow> string" where
  "removeTrailingSlash v = (if v \<noteq> [] \<and> last v = CHR ''/'' then butlast v else v)"

definition updateServerUrl :: "session \<Rightarrow> session" where
  "updateServerUrl s =
     (case document s ''fhirServerUrl'' of
        None \<Rightarrow> s
      | Some v \<Rightarrow> if v \<noteq> [] then s\<lparr>baseUrl := removeTrailingSlash v\<rparr> else s)"

definition init :: "session \<Rightarrow> session" where
  "init s = updateServerUrl s"

text \<open>\<^verbatim>\<open>new FHIRPatientManager()\<close> on a page with the given element values.\<close>

definition constructor :: "(string \<rightharpoonup> string) \<Rightarrow> session" where
  "constructor doc =
     init \<lparr>baseUrl = ''https://fhir-bootcamp.medblocks.com/fhir/'', patients = [],
           selectedPatient = None, document = doc, sent = []\<rparr>"

text \<open>\<^verbatim>\<open>Array.prototype.join(" ")\<close>\<close>

fun join :: "string list \<Rightarrow> string" where
  "join [] = []"
| "join [x] = x"
| "join (x # y # ys) = x @ '' '' @ join (y # ys)"

text \<open>
  \<^verbatim>\<open>getPatientName\<close>: the given names and the family name of the first name entry.
  \<open>None\<close> is the TypeError of \<^verbatim>\<open>name.given.join\<close> on a value that is not an array.
\<close>

definition getPatientName :: "patient \<Rightarrow> string option" where
  "getPatientName p =
     (case name p of
        None \<Rightarrow> Some ''Unknown''
      | Some [] \<Rightarrow> Some ''Unknown''
      | Some (n # _) \<Rightarrow>
          (case (case given n of
                   None \<Rightarrow> Some []
                 | Some (GivenNames gs) \<Rightarrow> Some (join gs)
                 | Some NotAnArray \<Rightarrow> None) of
             None \<Rightarrow> None
           | Some given' \<Rightarrow>
               (let family' = (case family n of None \<Rightarrow> [] | Some f \<Rightarrow> f);
                    full = trim (given' @ '' '' @ family')
                in Some (if full = [] then ''Unknown'' else full))))"

text \<open>
  How a method that changes the session ends: it returns, or it throws, and then the
  session is as it was at the throw.
\<close>

datatype completion = Returned | Threw

text \<open>\<^verbatim>\<open>setSelectedPatient\<close> assigns first and logs the name afterwards.\<close>

definition setSelectedPatient :: "patient \<Rightarrow> session \<Rightarrow> session \<times> completion" where
  "setSelectedPatient p s =
     (let s1 = s\<lparr>selectedPatient := Some p\<rparr>
      in case getPatientName p of None \<Rightarrow> (s1, Threw) | Some _ \<Rightarrow> (s1, Returned))"

definition getSelectedPatient :: "session \<Rightarrow> patient option" where
  "getSelectedPatient s = selectedPatient s"

text \<open>
  \<^verbatim>\<open>clearSelectedPatient\<close> logs the name of the selection, if there is one, and assigns
  afterwards.
\<close>

definition clearSelectedPatient :: "session \<Rightarrow> session \<times> completion" where
  "clearSelectedPatient s =
     (case selectedPatient s of
        None \<Rightarrow> (s\<lparr>selectedPatient := None\<rparr>, Returned)
      | Some p \<Rightarrow>
          (case getPatientName p of
             None \<Rightarrow> (s, Threw)
           | Some _ \<Rightarrow> (s\<lparr>selectedPatient := None\<rparr>, Returned)))"

definition send :: "request \<Rightarrow> session \<Rightarrow> session" where
  "send req s = s\<lparr>sent := sent s @ [req]\<rparr>"

definition createPatient :: "env \<Rightarrow> session \<Rightarrow> session \<times> outcome" where
  "createPatient e s =
     (case createPatientResource e (document s) of
        Inl err \<Rightarrow> (s, Invalid err)
      | Inr patientResource \<Rightarrow>
          (let req = \<lparr>http_method = POST, url = baseUrl s @ ''/Patient'',
                      body = Some patientResource\<rparr>;
               s1 = send req s
           in case fetch e req of
                Rejected msg \<Rightarrow> (s1, Failed (NetworkError msg))
              | Resolved r \<Rightarrow>
                  if ok r
                  then (case body_json r of
                          None \<Rightarrow> (s1, Failed BodyError)
                        | Some createdPatient \<Rightarrow>
                            (case getPatientName createdPatient of
                               None \<Rightarrow> (s1, Failed TypeError)
                             | Some patientName \<Rightarrow>
                                 (case setSelectedPatient createdPatient s1 of
                                    (s2, Threw) \<Rightarrow> (s2, Failed TypeError)
                                  | (s2, Returned) \<Rightarrow> (s2, Created createdPatient))))
                  else (case body_text r of
                          None \<Rightarrow> (s1, Failed BodyError)
                        | Some errorText \<Rightarrow> (s1, Failed (HttpStatus (status r) errorText)))))"

definition getPatientById :: "env \<Rightarrow> session \<Rightarrow> session \<times> outcome" where
  "getPatientById e s =
     (let patientId = fieldValue (document s) ''patientId''
      in if trim patientId = [] then (s, MissingId)
         else
           (let req = \<lparr>http_method = GET, url = baseUrl s @ ''/Patient/'' @ patientId,
                       body = None\<rparr>;
                s1 = send req s
            in case fetch e req of
                 Rejected msg \<Rightarrow> (s1, Failed (NetworkError msg))
               | Resolved r \<Rightarrow>
                   if ok r
                   then (case body_json r of
                           None \<Rightarrow> (s1, Failed BodyError)
                         | Some patient \<Rightarrow>
                             (case getPatientName patient of
                                None \<Rightarrow> (s1, Failed TypeError)
                              | Some patientName \<Rightarrow> (s1, Found patient)))
                   else if status r = 404 then (s1, NotFound patientId)
                   else (s1, Failed (HttpStatus (status r) (statusText r)))))"

definition deletePatient :: "env \<Rightarrow> session \<Rightarrow> session \<times> outcome" where
  "deletePatient e s =
     (let patientId = fieldValue (document s) ''updatePatientId''
      in if trim patientId = [] then (s, MissingId)
         else if \<not> confirm e patientId then (s, Cancelled)
         else
           (let req = \<lparr>http_method = DELETE, url = baseUrl s @ ''/Patient/'' @ patientId,
                       body = None\<rparr>;
                s1 = send req s
            in case fetch e req of
                 Rejected msg \<Rightarrow> (s1, Failed (NetworkError msg))
               | Resolved r \<Rightarrow>
                   if ok r \<or> status r = 204
                   then (case clearSelectedPatient s1 of
                           (s2, Threw) \<Rightarrow> (s2, Failed TypeError)
                         | (s2, Returned) \<Rightarrow>
                             (s2\<lparr>document := (document s2)(''updatePatientId'' \<mapsto> [])\<rparr>,
                              Deleted patientId))
                   else if status r = 404 then (s1, NotFound patientId)
                   else (s1, Failed (HttpStatus (status r) (statusText r)))))"

text \<open>\<^verbatim>\<open>`${selectedPatient.id}`\<close>: a missing id prints as \<^verbatim>\<open>undefined\<close>.\<close>

definition idText :: "string option \<Rightarrow> string" where
  "idText i = (case i of None \<Rightarrow> ''undefined'' | Some v \<Rightarrow> v)"

text \<open>
  \<^verbatim>\<open>updateSelectedPatient\<close> works on the global \<^verbatim>\<open>fhirPatient\<close>, which is undefined
  (\<open>None\<close>) until the page has loaded.
\<close>

definition updateSelectedPatient :: "env \<Rightarrow> session option \<Rightarrow> session option \<times> outcome" where
  "updateSelectedPatient e fhirPatient =
     (case fhirPatient of
        None \<Rightarrow> (None, NotInitialized)
      | Some s \<Rightarrow>
          (case getSelectedPatient s of
             None \<Rightarrow> (Some s, NoPatientSelected)
           | Some selected \<Rightarrow>
               (case createPatientResource e (document s) of
                  Inl err \<Rightarrow> (Some s, Invalid err)
                | Inr built \<Rightarrow>
                    (let updatedPatientResource = built\<lparr>resource_id := resource_id selected\<rparr>;
                         req = \<lparr>http_method = PUT,
                                url = baseUrl s @ ''/Patient/'' @ idText (resource_id selected),
                                body = Some updatedPatientResource\<rparr>;
                         s1 = send req s
                     in case fetch e req of
                          Rejected msg \<Rightarrow> (Some s1, Failed (NetworkError msg))
                        | Resolved r \<Rightarrow>
                            if ok r
                            then (case body_json r of
                                    None \<Rightarrow> (Some s1, Failed BodyError)
                                  | Some updatedPatient \<Rightarrow>
                                      (case getPatientName updatedPatient of
                                         None \<Rightarrow> (Some s1, Failed TypeError)
                                       | Some patientName \<Rightarrow>
                                           (case setSelectedPatient updatedPatient s1 of
                                              (s2, Threw) \<Rightarrow> (Some s2, Failed TypeError)
                                            | (s2, Returned) \<Rightarrow>
                                                (Some s2, Updated updatedPatient))))
                            else (case body_text r of
                                    None \<Rightarrow> (Some s1, Failed BodyError)
                                  | Some errorText \<Rightarrow>
                                      (Some s1, Failed (HttpStatus (status r) errorText)))))))"

section \<open>validatePatientResource\<close>

record validationResult =
  isValid :: bool
  errors :: "string list"

text \<open>Truthiness of a property that holds a string, if it is there at all.\<close>

definition truthy :: "string option \<Rightarrow> bool" where
  "truthy v = (case v of None \<Rightarrow> False | Some x \<Rightarrow> x \<noteq> [])"

definition validatePatientResource :: "patient \<Rightarrow> validationResult" where
  \<open>validatePatientResource patient =
     (let errors = [];
          errors =
            (if \<not> truthy (resourceType patient) \<or> resourceType patient \<noteq> Some ''Patient''
             then errors @ [''Resource type must be "Patient"''] else errors);
          errors =
            (if (case name patient of None \<Rightarrow> True | Some ns \<Rightarrow> length ns = 0)
             then errors @ [''Patient must have at least one name''] else errors);
          errors =
            (if (case gender patient of
                   None \<Rightarrow> False
                 | Some g \<Rightarrow> g \<noteq> [] \<and> g \<notin> set [''male'', ''female'', ''other'', ''unknown''])
             then errors @ [''Invalid gender value''] else errors);
          errors =
            (if (case birthDate patient of
                   None \<Rightarrow> False
                 | Some b \<Rightarrow> b \<noteq> [] \<and> \<not> test birthDateRegex b)
             then errors @ [''Birth date must be in YYYY-MM-DD format''] else errors)
      in \<lparr>isValid = (length errors = 0), errors = errors\<rparr>)\<close>

section \<open>The specification's wording, for comparison with the code\<close>

text \<open>
  The validation sequence as the specification lists it: each check with the error of its
  failure, in order. \<open>firstFailure\<close> is the error of the first check that does not
  hold.
\<close>

definition validationSequence :: "env \<Rightarrow> (string \<rightharpoonup> string) \<Rightarrow> (bool \<times> validation_error) list"
  where
  "validationSequence e doc =
     [(\<not> blank (fieldValue doc ''firstName''), FirstNameEmpty),
      (\<not> blank (fieldValue doc ''lastName''), LastNameEmpty),
      (\<not> blank (fieldValue doc ''gender''), GenderEmpty),
      (\<not> blank (fieldValue doc ''birthDate''), BirthDateEmpty),
      (parseDate e (fieldValue doc ''birthDate'') \<noteq> None, BirthDateInvalid),
      (case parseDate e (fieldValue doc ''birthDate'') of None \<Rightarrow> True | Some t \<Rightarrow> t \<le> now e,
       BirthDateInFuture),
      (blank (fieldValue doc ''email'') \<or> test emailRegex (trim (fieldValue doc ''email'')),
       EmailInvalid),
      (blank (fieldValue doc ''phone'') \<or>
         test phoneRegex (stripSeparators (fieldValue doc ''phone'')),
       PhoneInvalid)]"

fun firstFailure :: "(bool \<times> validation_error) list \<Rightarrow> validation_error option" where
  "firstFailure [] = None"
| "firstFailure ((holds, err) # rest) = (if holds then firstFailure rest else Some err)"

text \<open>
  The phone shape in the specification's words: an optional leading plus sign, then a
  digit that is not zero, then at most fifteen further digits.
\<close>

definition phoneShape :: "string \<Rightarrow> bool" where
  "phoneShape s =
     (let rest = (case s of [] \<Rightarrow> [] | c # cs \<Rightarrow> if c = CHR ''+'' then cs else s)
      in case rest of
           [] \<Rightarrow> False
         | d # ds \<Rightarrow> d \<in> set ''123456789'' \<and> list_all isDigit ds \<and> length ds \<le> 15)"

section \<open>Example inputs\<close>

text \<open>A date parser that reads the date-only form, as midnight UTC, and nothing else.\<close>

definition isoParser :: "string \<Rightarrow> int option" where
  "isoParser s = map_option (\<lambda>d. d * msPerDay) (isoDate s)"

text \<open>The clock stands at 2026-11-03, 09:30 UTC; every request is answered by \<open>r\<close>.\<close>

definition exampleEnv :: "response \<Rightarrow> env" where
  "exampleEnv r =
     \<lparr>now = 1793698200000, parseDate = isoParser, fetch = (\<lambda>req. r), confirm = (\<lambda>i. True)\<rparr>"

definition reply :: "nat \<Rightarrow> patient option \<Rightarrow> response" where
  "reply code resource =
     Resolved \<lparr>status = code, statusText = [], body_text = Some [], body_json = resource\<rparr>"

definition adaForm :: "string \<rightharpoonup> string" where
  "adaForm =
     [''firstName'' \<mapsto> ''Ada'', ''lastName'' \<mapsto> ''Lovelace'', ''gender'' \<mapsto> ''female'',
      ''birthDate'' \<mapsto> ''1815-12-10'']"

definition storedAda :: patient where
  "storedAda =
     \<lparr>resourceType = Some ''Patient'', resource_id = Some ''42'', active = None,
      name = Some [\<lparr>name_use = None, family = Some ''Lovelace'', given = Some (GivenNames [''Ada''])\<rparr>],
      gender = Some ''female'', birthDate = Some ''1815-12-10'', telecom = None,
      address = None\<rparr>"

text \<open>The same patient as a server may send it: the given name is a string, not an array.\<close>

definition unreadableAda :: patient where
  "unreadableAda =
     storedAda\<lparr>name := Some [\<lparr>name_use = None, family = Some ''Lovelace'',
                                given = Some NotAnArray\<rparr>]\<rparr>"

definition editing :: "(string \<rightharpoonup> string) \<Rightarrow> session" where
  "editing doc =
     \<lparr>baseUrl = ''https://fhir.example/r4'', patients = [], selectedPatient = Some storedAda,
      document = doc, sent = []\<rparr>"

definition idle :: "(string \<rightharpoonup> string) \<Rightarrow> session" where
  "idle doc = (editing doc)\<lparr>selectedPatient := None\<rparr>"

section \<open>Auxiliary facts\<close>

lemma trim_Nil [simp]: "trim [] = []"
  by (simp add: trim_def)

lemma build_order:
  "(createPatientResource e doc = Inl err) = (firstFailure (validationSequence e doc) = Some err)"
proof (cases "parseDate e (fieldValue doc ''birthDate'')")
  case None
  then show ?thesis
    by (cases "fieldValue doc ''birthDate'' = []")
       (simp_all add: createPatientResource_def validationSequence_def Let_def blank_def)
next
  case (Some t)
  then show ?thesis
    by (cases "fieldValue doc ''birthDate'' = []")
       (simp_all add: createPatientResource_def validationSequence_def Let_def blank_def)
qed

lemma required_blank_fails:
  assumes "blank (fieldValue doc ''firstName'') \<or> blank (fieldValue doc ''lastName'') \<or>
           blank (fieldValue doc ''gender'') \<or> blank (fieldValue doc ''birthDate'')"
  shows "\<exists>err. createPatientResource e doc = Inl err"
  using assms by (auto simp: createPatientResource_def Let_def blank_def)

lemma bex_upt: "(\<exists>k\<in>set [lo..<Suc m]. P k) \<longleftrightarrow> (\<exists>k. lo \<le> k \<and> k \<le> m \<and> P k)"
  by auto

lemma test_Cons_iff:
  "test ((cls, lo, hi) # r) s \<longleftrightarrow>
     (\<exists>k. lo \<le> k \<and> k \<le> length s \<and> (case hi of None \<Rightarrow> True | Some h \<Rightarrow> k \<le> h) \<and>
          list_all cls (take k s) \<and> test r (drop k s))"
proof (cases hi)
  case None
  then show ?thesis by (simp only: test.simps list_ex_iff bex_upt option.case) simp
next
  case (Some h)
  have "\<And>k. k \<le> min h (length s) \<longleftrightarrow> k \<le> length s \<and> k \<le> h" by auto
  with Some show ?thesis by (simp only: test.simps list_ex_iff bex_upt option.case) auto
qed









lemma create_failure_keeps_selection:
  "failed (snd (createPatient e s)) \<Longrightarrow> selectedPatient (fst (createPatient e s)) = selectedPatient s"
  by (auto simp: createPatient_def Let_def send_def setSelectedPatient_def
      split: sum.splits response.splits option.splits if_splits)

lemma create_changes_on_success:
  "selectedPatient (fst (createPatient e s)) \<noteq> selectedPatient s \<Longrightarrow> succeeded (snd (createPatient e s))"
  by (auto simp: createPatient_def Let_def send_def setSelectedPatient_def
      split: sum.splits response.splits option.splits if_splits)

lemma update_failure_keeps_selection:
  "failed (snd (updateSelectedPatient e (Some s))) \<Longrightarrow>
     map_option selectedPatient (fst (updateSelectedPatient e (Some s))) = Some (selectedPatient s)"
  by (auto simp: updateSelectedPatient_def getSelectedPatient_def Let_def send_def setSelectedPatient_def
      split: sum.splits response.splits option.splits if_splits)

lemma update_changes_on_success:
  "map_option selectedPatient (fst (updateSelectedPatient e (Some s))) \<noteq> Some (selectedPatient s) \<Longrightarrow>
     succeeded (snd (updateSelectedPatient e (Some s)))"
  by (auto simp: updateSelectedPatient_def getSelectedPatient_def Let_def send_def setSelectedPatient_def
      split: sum.splits response.splits option.splits if_splits)

lemma delete_failure_keeps_selection:
  "failed (snd (deletePatient e s)) \<Longrightarrow> selectedPatient (fst (deletePatient e s)) = selectedPatient s"
  by (auto simp: deletePatient_def Let_def send_def clearSelectedPatient_def
      split: response.splits if_splits option.splits)

lemma delete_changes_on_success:
  "selectedPatient (fst (deletePatient e s)) \<noteq> selectedPatient s \<Longrightarrow> succeeded (snd (deletePatient e s))"
  by (auto simp: deletePatient_def Let_def send_def clearSelectedPatient_def
      split: response.splits if_splits option.splits)

lemma isoDate_epoch:
  "isoDate ''1970-01-01'' = Some 0 \<and> isoDate ''2024-02-29'' = Some 19782 \<and>
   isoDate ''2024-03-01'' = Some 19783 \<and> isoDate ''2023-02-29'' = None"
  by code_simp

lemma name_ada: "getPatientName storedAda = Some ''Ada Lovelace''"
  by (simp add: getPatientName_def storedAda_def trim_def isSpace_def)

lemma name_unreadable: "getPatientName unreadableAda = None"
  by (simp add: getPatientName_def unreadableAda_def)

lemma isoDate_ada: "isoDate ''1815-12-10'' = Some (- 56270)"
  by code_simp

lemma build_ada:
  "createPatientResource (exampleEnv r) (adaForm(''updatePatientId'' \<mapsto> i)) =
     Inr \<lparr>resourceType = Some ''Patient'', resource_id = None, active = Some True,
          name = Some [\<lparr>name_use = Some ''official'', family = Some ''Lovelace'',
                        given = Some (GivenNames [''Ada''])\<rparr>],
          gender = Some ''female'', birthDate = Some ''1815-12-10'', telecom = Some [],
          address = None\<rparr>"
  by (simp add: createPatientResource_def exampleEnv_def adaForm_def fieldValue_def isoParser_def
      isoDate_ada trim_def isSpace_def assemble_def msPerDay_def)

lemma build_succeeds_iff:
  "(\<exists>p. createPatientResource e doc = Inr p) \<longleftrightarrow> firstFailure (validationSequence e doc) = None"
proof -
  have "(\<exists>p. createPatientResource e doc = Inr p) \<longleftrightarrow> (\<forall>err. createPatientResource e doc \<noteq> Inl err)"
    by (cases "createPatientResource e doc") auto
  also have "\<dots> \<longleftrightarrow> firstFailure (validationSequence e doc) = None"
    by (simp add: build_order)
  finally show ?thesis .
qed

lemma build_result:
  "createPatientResource e doc = Inr p \<Longrightarrow>
     p = assemble (fieldValue doc ''firstName'') (fieldValue doc ''lastName'')
           (fieldValue doc ''gender'') (fieldValue doc ''birthDate'') (fieldValue doc ''phone'')
           (fieldValue doc ''email'') (fieldValue doc ''address'') \<and>
     fieldValue doc ''birthDate'' \<noteq> []"
  by (auto simp: createPatientResource_def Let_def split: if_splits)

lemma build_ada_with:
  "createPatientResource (exampleEnv r) (adaForm(''phone'' \<mapsto> ''+1 (555) 123-4567'',
      ''email'' \<mapsto> ''a@b.co'', ''address'' \<mapsto> a)) =
   Inr (assemble ''Ada'' ''Lovelace'' ''female'' ''1815-12-10'' ''+1 (555) 123-4567'' ''a@b.co'' a)"
proof -
  have em: "test emailRegex ''a@b.co''" by code_simp
  have ph: "test phoneRegex ''+15551234567''" by code_simp
  have st: "stripSeparators ''+1 (555) 123-4567'' = ''+15551234567''"
    by (simp add: stripSeparators_def isSpace_def)
  have tr: "trim ''a@b.co'' = ''a@b.co''" "trim ''+1 (555) 123-4567'' \<noteq> []"
    "trim ''Ada'' \<noteq> []" "trim ''Lovelace'' \<noteq> []" "trim ''female'' \<noteq> []" "trim ''1815-12-10'' \<noteq> []"
    by (simp_all add: trim_def isSpace_def)
  show ?thesis
    by (simp add: createPatientResource_def exampleEnv_def adaForm_def fieldValue_def isoParser_def
      isoDate_ada msPerDay_def em ph st tr)
qed

lemma fieldValue_other: "k \<noteq> k' \<Longrightarrow> fieldValue (doc(k' := v)) k = fieldValue doc k"
  by (simp add: fieldValue_def)

lemma fieldValue_same: "fieldValue (doc(k \<mapsto> v)) k = v"
  by (simp add: fieldValue_def)

lemma firstFailure_phone:
  assumes "firstFailure (validationSequence e (doc(''phone'' := None))) = None"
  shows "firstFailure (validationSequence e (doc(''phone'' \<mapsto> ph))) =
           (if blank ph \<or> test phoneRegex (stripSeparators ph) then None else Some PhoneInvalid)"
proof -
  have "firstFailure (validationSequence e (doc(''phone'' := v))) =
          (case firstFailure (validationSequence e (doc(''phone'' := None))) of
             Some err \<Rightarrow> Some err
           | None \<Rightarrow> if blank (fieldValue (doc(''phone'' := v)) ''phone'') \<or>
                        test phoneRegex (stripSeparators (fieldValue (doc(''phone'' := v)) ''phone''))
                     then None else Some PhoneInvalid)" for v
    by (simp add: validationSequence_def fieldValue_other)
       (simp add: fieldValue_def blank_def)
  from this [of "Some ph"] assms show ?thesis
    by (simp add: fieldValue_same)
qed

lemma test_bounded: "test [(cls, 0, Some n)] s \<longleftrightarrow> list_all cls s \<and> length s \<le> n"
proof -
  have "test [(cls, 0, Some n)] s \<longleftrightarrow>
          (\<exists>k. k \<le> length s \<and> k \<le> n \<and> list_all cls (take k s) \<and> drop k s = [])"
    by (simp add: test_Cons_iff)
  also have "\<dots> \<longleftrightarrow> list_all cls s \<and> length s \<le> n"
    by (metis drop_eq_Nil le_antisym order_refl take_all)
  finally show ?thesis .
qed

lemma test_once:
  "test (once cls # r) s \<longleftrightarrow> (case s of [] \<Rightarrow> False | d # ds \<Rightarrow> cls d \<and> test r ds)"
proof -
  have "test (once cls # r) s \<longleftrightarrow>
          (\<exists>k. 1 \<le> k \<and> k \<le> length s \<and> k \<le> 1 \<and> list_all cls (take k s) \<and> test r (drop k s))"
    by (simp add: once_def test_Cons_iff)
  also have "\<dots> \<longleftrightarrow> (1 \<le> length s \<and> list_all cls (take 1 s) \<and> test r (drop 1 s))"
    by (metis le_antisym order_refl)
  also have "\<dots> \<longleftrightarrow> (case s of [] \<Rightarrow> False | d # ds \<Rightarrow> cls d \<and> test r ds)"
    by (cases s) simp_all
  finally show ?thesis .
qed

lemma test_optional:
  "test ((cls, 0, Some 1) # r) s \<longleftrightarrow>
     test r s \<or> (case s of [] \<Rightarrow> False | c # cs \<Rightarrow> cls c \<and> test r cs)"
proof -
  have "test ((cls, 0, Some 1) # r) s \<longleftrightarrow>
          (\<exists>k. k \<le> length s \<and> k \<le> 1 \<and> list_all cls (take k s) \<and> test r (drop k s))"
    by (simp add: test_Cons_iff)
  also have "\<dots> \<longleftrightarrow> test r s \<or> (1 \<le> length s \<and> list_all cls (take 1 s) \<and> test r (drop 1 s))"
  proof -
    have k: "\<And>k::nat. k \<le> 1 \<longleftrightarrow> k = 0 \<or> k = 1" by auto
    show ?thesis unfolding k by auto
  qed
  also have "\<dots> \<longleftrightarrow> test r s \<or> (case s of [] \<Rightarrow> False | c # cs \<Rightarrow> cls c \<and> test r cs)"
    by (cases s) simp_all
  finally show ?thesis .
qed

lemma phoneRegex_shape: "test phoneRegex s \<longleftrightarrow> phoneShape s"
proof -
  let ?Q = "\<lambda>s. case s of [] \<Rightarrow> False
                  | d # ds \<Rightarrow> d \<in> set ''123456789'' \<and> list_all isDigit ds \<and> length ds \<le> 15"
  have eq: "test phoneRegex s \<longleftrightarrow>
              ?Q s \<or> (case s of [] \<Rightarrow> False | c # cs \<Rightarrow> c = CHR ''+'' \<and> ?Q cs)"
    by (simp only: phoneRegex_def test_optional test_once test_bounded)
  show ?thesis
  proof (cases s)
    case Nil
    then show ?thesis unfolding eq by (simp add: phoneShape_def)
  next
    case (Cons c cs)
    then show ?thesis unfolding eq by (cases "c = CHR ''+''") (simp_all add: phoneShape_def)
  qed
qed

lemma strip_example: "stripSeparators ''+1 (555) 123-4567'' = ''+15551234567''"
  by (simp add: stripSeparators_def isSpace_def)

lemma shape_example: "phoneShape ''+15551234567''"
  by (simp add: phoneShape_def isDigit_def)

lemma shape_leading_zero: "\<not> blank ''0123'' \<and> \<not> phoneShape (stripSeparators ''0123'')"
  by (simp add: phoneShape_def stripSeparators_def isSpace_def blank_def trim_def)

lemma delete_clears_readable_selection:
  assumes "\<not> blank (fieldValue (document s) ''updatePatientId'')"
    and "confirm e (fieldValue (document s) ''updatePatientId'')"
    and "fetch e \<lparr>http_method = DELETE,
                   url = baseUrl s @ ''/Patient/'' @ fieldValue (document s) ''updatePatientId'',
                   body = None\<rparr> = Resolved r"
    and "selectedPatient s = None \<or> (\<exists>p n. selectedPatient s = Some p \<and> getPatientName p = Some n)"
  shows "(ok r \<or> status r = 204 \<longrightarrow>
            selectedPatient (fst (deletePatient e s)) = None \<and>
            snd (deletePatient e s) = Deleted (fieldValue (document s) ''updatePatientId'')) \<and>
         (status r = 404 \<longrightarrow>
            snd (deletePatient e s) = NotFound (fieldValue (document s) ''updatePatientId'') \<and>
            selectedPatient (fst (deletePatient e s)) = selectedPatient s)"
  using assms
  by (auto simp: deletePatient_def blank_def Let_def send_def clearSelectedPatient_def ok_def)

lemma validator_errors:
  \<open>errors (validatePatientResource p) =
     (if resourceType p = Some ''Patient'' then [] else [''Resource type must be "Patient"'']) @
     (if name p = None \<or> name p = Some [] then [''Patient must have at least one name''] else []) @
     (if \<exists>g. gender p = Some g \<and> g \<noteq> [] \<and> g \<notin> {''male'', ''female'', ''other'', ''unknown''}
      then [''Invalid gender value''] else []) @
     (if \<exists>b. birthDate p = Some b \<and> b \<noteq> [] \<and> \<not> test birthDateRegex b
      then [''Birth date must be in YYYY-MM-DD format''] else [])\<close>
proof -
  have r: "(\<not> truthy (resourceType p) \<or> resourceType p \<noteq> Some ''Patient'') \<longleftrightarrow>
             resourceType p \<noteq> Some ''Patient''"
    by (auto simp: truthy_def)
  have n: "(case name p of None \<Rightarrow> True | Some ns \<Rightarrow> length ns = 0) \<longleftrightarrow>
             name p = None \<or> name p = Some []"
    by (simp split: option.splits)
  have g: "(case gender p of None \<Rightarrow> False
            | Some g \<Rightarrow> g \<noteq> [] \<and> g \<notin> set [''male'', ''female'', ''other'', ''unknown'']) \<longleftrightarrow>
           (\<exists>g. gender p = Some g \<and> g \<noteq> [] \<and> g \<notin> {''male'', ''female'', ''other'', ''unknown''})"
    by (cases "gender p") simp_all
  have b: "(case birthDate p of None \<Rightarrow> False | Some b \<Rightarrow> b \<noteq> [] \<and> \<not> test birthDateRegex b) \<longleftrightarrow>
           (\<exists>b. birthDate p = Some b \<and> b \<noteq> [] \<and> \<not> test birthDateRegex b)"
    by (cases "birthDate p") simp_all
  show ?thesis
    unfolding validatePatientResource_def Let_def r n g b by simp
qed

lemma validator_isValid:
  "isValid (validatePatientResource p) = (errors (validatePatientResource p) = [])"
  by (simp add: validatePatientResource_def Let_def)

section \<open>The order of the checks\<close>

text \<open>
  Claim C1. \<^verbatim>\<open>createPatientResource\<close> applies its checks in the fixed order first name,
  last name, gender, birth date present, birth date valid, birth date not in the future,
  email shape (only for a non-blank email), phone shape (only for a non-blank phone): it
  fails with an error exactly when that error belongs to the first check of the
  sequence that does not hold. When it fails, \<^verbatim>\<open>createPatient\<close> reports the error and
  leaves the session as it was, so no request is sent. Whenever one of first name, last
  name, gender and birth date is blank after trimming, it fails.
\<close>

theorem C1_validation_order:
  "(createPatientResource e doc = Inl err \<longleftrightarrow> firstFailure (validationSequence e doc) = Some err) \<and>
   (createPatientResource e (document s) = Inl err \<longrightarrow>
      createPatient e s = (s, Invalid err) \<and> sent (fst (createPatient e s)) = sent s) \<and>
   (blank (fieldValue doc ''firstName'') \<or> blank (fieldValue doc ''lastName'') \<or>
    blank (fieldValue doc ''gender'') \<or> blank (fieldValue doc ''birthDate'') \<longrightarrow>
      (\<exists>err'. createPatientResource e doc = Inl err'))"
proof (intro conjI impI)
  show "createPatientResource e doc = Inl err \<longleftrightarrow> firstFailure (validationSequence e doc) = Some err"
    by (rule build_order)
next
  assume a: "createPatientResource e (document s) = Inl err"
  then show "createPatient e s = (s, Invalid err)" by (simp add: createPatient_def)
  with a show "sent (fst (createPatient e s)) = sent s" by simp
next
  assume "blank (fieldValue doc ''firstName'') \<or> blank (fieldValue doc ''lastName'') \<or>
    blank (fieldValue doc ''gender'') \<or> blank (fieldValue doc ''birthDate'')"
  then show "\<exists>err'. createPatientResource e doc = Inl err'" by (rule required_blank_fails)
qed

text \<open>A form whose last name is two spaces: the second check fails, nothing is sent.\<close>

theorem C1_validation_order_witness:
  "blank (fieldValue (adaForm(''lastName'' \<mapsto> ''  '')) ''lastName'') \<and>
   createPatientResource (exampleEnv (reply 201 (Some storedAda))) (adaForm(''lastName'' \<mapsto> ''  ''))
     = Inl LastNameEmpty \<and>
   createPatient (exampleEnv (reply 201 (Some storedAda))) (idle (adaForm(''lastName'' \<mapsto> ''  '')))
     = (idle (adaForm(''lastName'' \<mapsto> ''  '')), Invalid LastNameEmpty)"
proof -
  let ?e = "exampleEnv (reply 201 (Some storedAda))"
  let ?doc = "adaForm(''lastName'' \<mapsto> ''  '')"
  have b: "blank (fieldValue ?doc ''lastName'')"
    by (simp add: blank_def trim_def isSpace_def fieldValue_def)
  have f: "firstFailure (validationSequence ?e ?doc) = Some LastNameEmpty"
    using b by (simp add: validationSequence_def adaForm_def fieldValue_def blank_def trim_def isSpace_def)
  have d: "document (idle ?doc) = ?doc"
    by (simp add: idle_def editing_def)
  from C1_validation_order [of ?e ?doc LastNameEmpty "idle ?doc"] b f d show ?thesis
    by simp
qed

section \<open>The birth date and the current date\<close>




section \<open>Failures keep the selection\<close>

text \<open>
  Claim C3. For \<^verbatim>\<open>createPatient\<close>, \<^verbatim>\<open>updateSelectedPatient\<close> and \<^verbatim>\<open>deletePatient\<close>: when
  the operation ends in a failure (a validation error, a failed precondition, an HTTP
  failure, a network error or an unreadable body), the selected patient after it is the
  one before it; and the selection differs afterwards only when the operation reports a
  success.
\<close>

theorem C3_failure_keeps_selection:
  "(failed (snd (createPatient e s)) \<longrightarrow>
      selectedPatient (fst (createPatient e s)) = selectedPatient s) \<and>
   (failed (snd (updateSelectedPatient e (Some s))) \<longrightarrow>
      map_option selectedPatient (fst (updateSelectedPatient e (Some s))) = Some (selectedPatient s)) \<and>
   (failed (snd (deletePatient e s)) \<longrightarrow>
      selectedPatient (fst (deletePatient e s)) = selectedPatient s) \<and>
   (selectedPatient (fst (createPatient e s)) \<noteq> selectedPatient s \<longrightarrow>
      succeeded (snd (createPatient e s))) \<and>
   (map_option selectedPatient (fst (updateSelectedPatient e (Some s))) \<noteq> Some (selectedPatient s) \<longrightarrow>
      succeeded (snd (updateSelectedPatient e (Some s)))) \<and>
   (selectedPatient (fst (deletePatient e s)) \<noteq> selectedPatient s \<longrightarrow>
      succeeded (snd (deletePatient e s)))"
  using create_failure_keeps_selection [of e s] update_failure_keeps_selection [of e s]
    delete_failure_keeps_selection [of e s] create_changes_on_success [of e s]
    update_changes_on_success [of e s] delete_changes_on_success [of e s]
  by blast

text \<open>
  With a patient selected: a create answered by 500, an update whose request is rejected by
  the network and a delete answered by 404 all leave the selection in place. The
  selection changes in a create answered by 201 and in a delete answered by 204, and
  both report a success.
\<close>

theorem C3_failure_keeps_selection_witness:
  "snd (createPatient (exampleEnv (reply 500 None)) (editing (adaForm(''updatePatientId'' \<mapsto> ''42''))))
     = Failed (HttpStatus 500 []) \<and>
   selectedPatient (fst (createPatient (exampleEnv (reply 500 None))
     (editing (adaForm(''updatePatientId'' \<mapsto> ''42''))))) = Some storedAda \<and>
   snd (updateSelectedPatient (exampleEnv (Rejected ''offline''))
     (Some (editing (adaForm(''updatePatientId'' \<mapsto> ''42''))))) = Failed (NetworkError ''offline'') \<and>
   map_option selectedPatient (fst (updateSelectedPatient (exampleEnv (Rejected ''offline''))
     (Some (editing (adaForm(''updatePatientId'' \<mapsto> ''42'')))))) = Some (Some storedAda) \<and>
   snd (deletePatient (exampleEnv (reply 404 None)) (editing (adaForm(''updatePatientId'' \<mapsto> ''42''))))
     = NotFound ''42'' \<and>
   selectedPatient (fst (deletePatient (exampleEnv (reply 404 None))
     (editing (adaForm(''updatePatientId'' \<mapsto> ''42''))))) = Some storedAda \<and>
   selectedPatient (fst (createPatient (exampleEnv (reply 201 (Some storedAda)))
     (idle (adaForm(''updatePatientId'' \<mapsto> ''42''))))) = Some storedAda \<and>
   selectedPatient (idle (adaForm(''updatePatientId'' \<mapsto> ''42''))) = None \<and>
   succeeded (snd (createPatient (exampleEnv (reply 201 (Some storedAda)))
     (idle (adaForm(''updatePatientId'' \<mapsto> ''42''))))) \<and>
   selectedPatient (fst (deletePatient (exampleEnv (reply 204 None))
     (editing (adaForm(''updatePatientId'' \<mapsto> ''42''))))) = None \<and>
   succeeded (snd (deletePatient (exampleEnv (reply 204 None))
     (editing (adaForm(''updatePatientId'' \<mapsto> ''42'')))))"
proof -
  let ?doc = "adaForm(''updatePatientId'' \<mapsto> ''42'')"
  let ?s = "editing ?doc"
  have sel: "selectedPatient ?s = Some storedAda" "selectedPatient (idle ?doc) = None"
    by (simp_all add: editing_def idle_def)
  have c: "snd (createPatient (exampleEnv (reply 500 None)) ?s) = Failed (HttpStatus 500 [])"
    by (simp add: createPatient_def editing_def build_ada Let_def)
       (simp add: exampleEnv_def reply_def ok_def)
  have u: "snd (updateSelectedPatient (exampleEnv (Rejected ''offline'')) (Some ?s))
             = Failed (NetworkError ''offline'')"
    by (simp add: updateSelectedPatient_def getSelectedPatient_def editing_def build_ada Let_def)
       (simp add: exampleEnv_def)
  have d: "snd (deletePatient (exampleEnv (reply 404 None)) ?s) = NotFound ''42''"
    by (simp add: deletePatient_def editing_def fieldValue_def trim_def isSpace_def Let_def
        exampleEnv_def reply_def ok_def)
  have c': "selectedPatient (fst (createPatient (exampleEnv (reply 201 (Some storedAda))) (idle ?doc)))
              = Some storedAda"
    by (simp add: createPatient_def idle_def editing_def build_ada Let_def)
       (simp add: exampleEnv_def reply_def ok_def setSelectedPatient_def send_def name_ada)
  have d': "selectedPatient (fst (deletePatient (exampleEnv (reply 204 None)) ?s)) = None"
    by (simp add: deletePatient_def editing_def fieldValue_def trim_def isSpace_def Let_def
        exampleEnv_def reply_def ok_def clearSelectedPatient_def send_def name_ada)
  from C3_failure_keeps_selection [of "exampleEnv (reply 500 None)" ?s]
    C3_failure_keeps_selection [of "exampleEnv (Rejected ''offline'')" ?s]
    C3_failure_keeps_selection [of "exampleEnv (reply 404 None)" ?s]
    C3_failure_keeps_selection [of "exampleEnv (reply 201 (Some storedAda))" "idle ?doc"]
    C3_failure_keeps_selection [of "exampleEnv (reply 204 None)" ?s]
    c u d c' d' sel
  show ?thesis by simp
qed

section \<open>Updating without a selection or with an invalid form\<close>

text \<open>
  Claim C4. Whatever the form holds, \<^verbatim>\<open>updateSelectedPatient\<close> with no patient selected
  reports that no patient is selected and returns the session as it was: no request is
  sent. With a patient selected and a form that \<^verbatim>\<open>createPatientResource\<close> refuses, it
  reports the validation error and again returns the session as it was: no request is
  sent and the selection is unchanged.
\<close>

theorem C4_update_preconditions:
  "(selectedPatient s = None \<longrightarrow>
      updateSelectedPatient e (Some s) = (Some s, NoPatientSelected) \<and>
      map_option sent (fst (updateSelectedPatient e (Some s))) = Some (sent s)) \<and>
   (selectedPatient s \<noteq> None \<longrightarrow> createPatientResource e (document s) = Inl err \<longrightarrow>
      updateSelectedPatient e (Some s) = (Some s, Invalid err) \<and>
      map_option sent (fst (updateSelectedPatient e (Some s))) = Some (sent s) \<and>
      map_option selectedPatient (fst (updateSelectedPatient e (Some s))) = Some (selectedPatient s))"
  by (auto simp: updateSelectedPatient_def getSelectedPatient_def)

text \<open>
  No selection and a valid form: refused, nothing sent. A selection and a form without a
  gender: the validation error, nothing sent, the selection kept.
\<close>

theorem C4_update_preconditions_witness:
  "updateSelectedPatient (exampleEnv (reply 200 (Some storedAda))) (Some (idle adaForm))
     = (Some (idle adaForm), NoPatientSelected) \<and>
   sent (idle adaForm) = [] \<and>
   updateSelectedPatient (exampleEnv (reply 200 (Some storedAda)))
       (Some (editing (adaForm(''gender'' \<mapsto> []))))
     = (Some (editing (adaForm(''gender'' \<mapsto> []))), Invalid GenderEmpty) \<and>
   sent (editing (adaForm(''gender'' \<mapsto> []))) = [] \<and>
   selectedPatient (editing (adaForm(''gender'' \<mapsto> []))) = Some storedAda"
proof -
  let ?e = "exampleEnv (reply 200 (Some storedAda))"
  let ?doc = "adaForm(''gender'' \<mapsto> [])"
  have a: "selectedPatient (idle adaForm) = None" "sent (idle adaForm) = []"
    by (simp_all add: idle_def editing_def)
  have b: "selectedPatient (editing ?doc) = Some storedAda" "sent (editing ?doc) = []"
    "document (editing ?doc) = ?doc"
    by (simp_all add: editing_def)
  have c: "createPatientResource ?e ?doc = Inl GenderEmpty"
    by (simp add: createPatientResource_def adaForm_def fieldValue_def trim_def isSpace_def)
  from C4_update_preconditions [of "idle adaForm" ?e] C4_update_preconditions [of "editing ?doc" ?e GenderEmpty]
    a b c
  show ?thesis by simp
qed

section \<open>Deleting and the selection\<close>

text \<open>
  Claim C5 says that a successful delete clears the selection unconditionally and reports
  the deletion. \<^verbatim>\<open>clearSelectedPatient\<close> logs the name of the selected patient before it
  assigns, and \<^verbatim>\<open>setSelectedPatient\<close> assigns before it logs. So a resource whose given
  name is not an array becomes the selection although \<^verbatim>\<open>setSelectedPatient\<close> throws,
  as it does in \<^verbatim>\<open>loadPatientForUpdate\<close>; a delete answered by 204 then throws while it
  clears, reports a failure and leaves the selection in place.
\<close>

theorem C5_delete_keeps_unreadable_selection:
  "setSelectedPatient unreadableAda (idle (adaForm(''updatePatientId'' \<mapsto> ''7''))) =
     ((idle (adaForm(''updatePatientId'' \<mapsto> ''7'')))\<lparr>selectedPatient := Some unreadableAda\<rparr>,
      Threw) \<and>
   snd (deletePatient (exampleEnv (reply 204 None))
     ((idle (adaForm(''updatePatientId'' \<mapsto> ''7'')))\<lparr>selectedPatient := Some unreadableAda\<rparr>))
     = Failed TypeError \<and>
   selectedPatient (fst (deletePatient (exampleEnv (reply 204 None))
     ((idle (adaForm(''updatePatientId'' \<mapsto> ''7'')))\<lparr>selectedPatient := Some unreadableAda\<rparr>)))
     = Some unreadableAda"
proof -
  let ?s = "(idle (adaForm(''updatePatientId'' \<mapsto> ''7'')))\<lparr>selectedPatient := Some unreadableAda\<rparr>"
  have a: "setSelectedPatient unreadableAda (idle (adaForm(''updatePatientId'' \<mapsto> ''7''))) = (?s, Threw)"
    by (simp add: setSelectedPatient_def name_unreadable)
  have d: "deletePatient (exampleEnv (reply 204 None)) ?s =
             (send \<lparr>http_method = DELETE, url = ''https://fhir.example/r4/Patient/7'', body = None\<rparr> ?s,
              Failed TypeError)"
    by (simp add: deletePatient_def idle_def editing_def fieldValue_def trim_def isSpace_def Let_def
        exampleEnv_def reply_def ok_def clearSelectedPatient_def send_def name_unreadable)
  from a d show ?thesis by (simp add: send_def)
qed

section \<open>The shape of the built resource\<close>

text \<open>
  Claim C6, amended. When \<^verbatim>\<open>createPatientResource\<close> succeeds, the resource has the one
  name entry with use official, family the last name and given the first name alone, the
  gender and the birth date copied verbatim, no id. Its telecom holds a phone entry when
  the phone string is not empty, then an email entry when the email string is not empty,
  each with use home. Its address is the singleton with use home, type both and the
  address as text exactly when the address string is not empty, and absent otherwise: the
  test is for the empty string, so an address of white space alone is emitted.
\<close>

theorem C6_resource_shape:
  assumes "createPatientResource e doc = Inr p"
  shows "resourceType p = Some ''Patient'' \<and> active p = Some True \<and> resource_id p = None \<and>
         name p = Some [\<lparr>name_use = Some ''official'', family = Some (fieldValue doc ''lastName''),
                         given = Some (GivenNames [fieldValue doc ''firstName''])\<rparr>] \<and>
         gender p = Some (fieldValue doc ''gender'') \<and>
         birthDate p = Some (fieldValue doc ''birthDate'') \<and>
         telecom p =
           Some ((if fieldValue doc ''phone'' = [] then []
                  else [\<lparr>system = ''phone'', contact_value = fieldValue doc ''phone'',
                          contact_use = ''home''\<rparr>]) @
                 (if fieldValue doc ''email'' = [] then []
                  else [\<lparr>system = ''email'', contact_value = fieldValue doc ''email'',
                          contact_use = ''home''\<rparr>])) \<and>
         address p =
           (if fieldValue doc ''address'' = [] then None
            else Some [\<lparr>address_use = ''home'', address_type = ''both'',
                        address_text = fieldValue doc ''address''\<rparr>])"
  using build_result [OF assms] by (simp add: assemble_def Let_def)

text \<open>A form with phone, email and address: phone before email, one address entry.\<close>

theorem C6_resource_shape_witness:
  "createPatientResource (exampleEnv (Rejected ''offline''))
     (adaForm(''phone'' \<mapsto> ''+1 (555) 123-4567'', ''email'' \<mapsto> ''a@b.co'',
        ''address'' \<mapsto> ''12 St James Square'')) =
   Inr \<lparr>resourceType = Some ''Patient'', resource_id = None, active = Some True,
        name = Some [\<lparr>name_use = Some ''official'', family = Some ''Lovelace'',
                      given = Some (GivenNames [''Ada''])\<rparr>],
        gender = Some ''female'', birthDate = Some ''1815-12-10'',
        telecom = Some [\<lparr>system = ''phone'', contact_value = ''+1 (555) 123-4567'',
                          contact_use = ''home''\<rparr>,
                        \<lparr>system = ''email'', contact_value = ''a@b.co'', contact_use = ''home''\<rparr>],
        address = Some [\<lparr>address_use = ''home'', address_type = ''both'',
                         address_text = ''12 St James Square''\<rparr>]\<rparr>"
proof -
  let ?doc = "adaForm(''phone'' \<mapsto> ''+1 (555) 123-4567'', ''email'' \<mapsto> ''a@b.co'',
        ''address'' \<mapsto> ''12 St James Square'')"
  let ?p = "assemble ''Ada'' ''Lovelace'' ''female'' ''1815-12-10'' ''+1 (555) 123-4567'' ''a@b.co''
        ''12 St James Square''"
  have b: "createPatientResource (exampleEnv (Rejected ''offline'')) ?doc = Inr ?p"
    by (rule build_ada_with)
  have f: "fieldValue ?doc ''firstName'' = ''Ada''" "fieldValue ?doc ''lastName'' = ''Lovelace''"
    "fieldValue ?doc ''gender'' = ''female''" "fieldValue ?doc ''birthDate'' = ''1815-12-10''"
    "fieldValue ?doc ''phone'' = ''+1 (555) 123-4567''" "fieldValue ?doc ''email'' = ''a@b.co''"
    "fieldValue ?doc ''address'' = ''12 St James Square''"
    by (simp_all add: adaForm_def fieldValue_def)
  from C6_resource_shape [OF b] have "?p = \<lparr>resourceType = Some ''Patient'', resource_id = None, active = Some True,
        name = Some [\<lparr>name_use = Some ''official'', family = Some ''Lovelace'',
                      given = Some (GivenNames [''Ada''])\<rparr>],
        gender = Some ''female'', birthDate = Some ''1815-12-10'',
        telecom = Some [\<lparr>system = ''phone'', contact_value = ''+1 (555) 123-4567'',
                          contact_use = ''home''\<rparr>,
                        \<lparr>system = ''email'', contact_value = ''a@b.co'', contact_use = ''home''\<rparr>],
        address = Some [\<lparr>address_use = ''home'', address_type = ''both'',
                         address_text = ''12 St James Square''\<rparr>]\<rparr>"
    unfolding f by (cases ?p) simp
  with b show ?thesis by simp
qed

text \<open>
  Against C6 as stated: an address of one space is blank, and the resource has an address
  entry all the same.
\<close>

theorem C6_blank_address_counterexample:
  "blank (fieldValue (adaForm(''address'' \<mapsto> '' '')) ''address'') \<and>
   createPatientResource (exampleEnv (Rejected ''offline'')) (adaForm(''address'' \<mapsto> '' '')) =
   Inr \<lparr>resourceType = Some ''Patient'', resource_id = None, active = Some True,
        name = Some [\<lparr>name_use = Some ''official'', family = Some ''Lovelace'',
                      given = Some (GivenNames [''Ada''])\<rparr>],
        gender = Some ''female'', birthDate = Some ''1815-12-10'', telecom = Some [],
        address = Some [\<lparr>address_use = ''home'', address_type = ''both'',
                         address_text = '' ''\<rparr>]\<rparr>"
  by (simp add: createPatientResource_def exampleEnv_def adaForm_def fieldValue_def isoParser_def
      isoDate_ada trim_def isSpace_def assemble_def msPerDay_def blank_def)

section \<open>The phone check\<close>

text \<open>
  Claim C7, amended. Let every check other than the phone check pass (the build succeeds
  with the phone left out). Then for every phone string the build succeeds exactly when
  the phone is blank, or what remains of it after stripping white space, hyphens and
  parentheses is an optional leading plus sign, a digit that is not zero and at most
  fifteen further digits; otherwise it fails with the phone error. In particular the
  phone \<^verbatim>\<open>+1 (555) 123-4567\<close> is accepted and \<^verbatim>\<open>0123\<close> is refused.
\<close>

theorem C7_phone_shape:
  assumes "\<exists>p. createPatientResource e (doc(''phone'' := None)) = Inr p"
  shows "((\<exists>p. createPatientResource e (doc(''phone'' \<mapsto> ph)) = Inr p) \<longleftrightarrow>
            blank ph \<or> phoneShape (stripSeparators ph)) \<and>
         (createPatientResource e (doc(''phone'' \<mapsto> ph)) = Inl PhoneInvalid \<longleftrightarrow>
            \<not> blank ph \<and> \<not> phoneShape (stripSeparators ph)) \<and>
         (\<exists>p. createPatientResource e (doc(''phone'' \<mapsto> ''+1 (555) 123-4567'')) = Inr p) \<and>
         createPatientResource e (doc(''phone'' \<mapsto> ''0123'')) = Inl PhoneInvalid"
proof -
  from assms have ok: "firstFailure (validationSequence e (doc(''phone'' := None))) = None"
    by (simp add: build_succeeds_iff)
  have a: "(\<exists>p. createPatientResource e (doc(''phone'' \<mapsto> x)) = Inr p) \<longleftrightarrow>
             blank x \<or> phoneShape (stripSeparators x)" for x
    by (simp add: build_succeeds_iff firstFailure_phone [OF ok] phoneRegex_shape)
  have b: "createPatientResource e (doc(''phone'' \<mapsto> x)) = Inl PhoneInvalid \<longleftrightarrow>
             \<not> blank x \<and> \<not> phoneShape (stripSeparators x)" for x
    by (simp add: build_order firstFailure_phone [OF ok] phoneRegex_shape)
  have c: "\<exists>p. createPatientResource e (doc(''phone'' \<mapsto> ''+1 (555) 123-4567'')) = Inr p"
    unfolding a by (simp add: strip_example shape_example)
  have d: "createPatientResource e (doc(''phone'' \<mapsto> ''0123'')) = Inl PhoneInvalid"
    unfolding b by (rule shape_leading_zero)
  from a b c d show ?thesis by blast
qed

text \<open>Ada's form, first with a phone of sixteen digits, then with one of seventeen.\<close>

theorem C7_phone_shape_witness:
  "(\<exists>p. createPatientResource (exampleEnv (Rejected ''offline''))
          (adaForm(''phone'' \<mapsto> ''(555) 123-4567 890 123'')) = Inr p) \<and>
   createPatientResource (exampleEnv (Rejected ''offline''))
     (adaForm(''phone'' \<mapsto> ''12345678901234567'')) = Inl PhoneInvalid \<and>
   (\<exists>p. createPatientResource (exampleEnv (Rejected ''offline''))
          (adaForm(''phone'' \<mapsto> ''+1 (555) 123-4567'')) = Inr p) \<and>
   createPatientResource (exampleEnv (Rejected ''offline'')) (adaForm(''phone'' \<mapsto> ''0123''))
     = Inl PhoneInvalid"
proof -
  let ?e = "exampleEnv (Rejected ''offline'')"
  have base: "\<exists>p. createPatientResource ?e (adaForm(''phone'' := None)) = Inr p"
    by (simp add: createPatientResource_def exampleEnv_def adaForm_def fieldValue_def isoParser_def
      isoDate_ada trim_def isSpace_def msPerDay_def)
  have s1: "phoneShape (stripSeparators ''(555) 123-4567 890 123'')"
    by (simp add: phoneShape_def stripSeparators_def isSpace_def isDigit_def)
  have s2: "\<not> blank ''12345678901234567'' \<and> \<not> phoneShape (stripSeparators ''12345678901234567'')"
    by (simp add: phoneShape_def stripSeparators_def isSpace_def isDigit_def blank_def trim_def)
  from C7_phone_shape [OF base, of "''(555) 123-4567 890 123''"]
    C7_phone_shape [OF base, of "''12345678901234567''"] s1 s2
  show ?thesis by simp
qed

text \<open>
  Against C7 as stated: the empty phone is accepted, and what remains of it after
  stripping is no phone number.
\<close>

theorem C7_empty_phone_counterexample:
  "createPatientResource (exampleEnv (Rejected ''offline'')) (adaForm(''phone'' \<mapsto> [])) =
     Inr \<lparr>resourceType = Some ''Patient'', resource_id = None, active = Some True,
          name = Some [\<lparr>name_use = Some ''official'', family = Some ''Lovelace'',
                        given = Some (GivenNames [''Ada''])\<rparr>],
          gender = Some ''female'', birthDate = Some ''1815-12-10'', telecom = Some [],
          address = None\<rparr> \<and>
   \<not> phoneShape (stripSeparators []) \<and> \<not> test phoneRegex (stripSeparators [])"
proof -
  have "\<not> phoneShape (stripSeparators [])"
    by (simp add: phoneShape_def stripSeparators_def)
  moreover from this have "\<not> test phoneRegex (stripSeparators [])"
    by (simp add: phoneRegex_shape)
  moreover have "createPatientResource (exampleEnv (Rejected ''offline'')) (adaForm(''phone'' \<mapsto> [])) =
     Inr \<lparr>resourceType = Some ''Patient'', resource_id = None, active = Some True,
          name = Some [\<lparr>name_use = Some ''official'', family = Some ''Lovelace'',
                        given = Some (GivenNames [''Ada''])\<rparr>],
          gender = Some ''female'', birthDate = Some ''1815-12-10'', telecom = Some [],
          address = None\<rparr>"
    by (simp add: createPatientResource_def exampleEnv_def adaForm_def fieldValue_def isoParser_def
      isoDate_ada trim_def isSpace_def assemble_def msPerDay_def)
  ultimately show ?thesis by simp
qed

section \<open>Fetching by id keeps the selection\<close>

text \<open>
  Claim C8. \<^verbatim>\<open>getPatientById\<close> never changes the selected patient, whatever the id field
  holds and however the request ends; for a non-blank id answered by 404 the outcome is
  the not-found one.
\<close>

theorem C8_fetch_keeps_selection:
  "selectedPatient (fst (getPatientById e s)) = selectedPatient s \<and>
   (\<not> blank (fieldValue (document s) ''patientId'') \<longrightarrow>
    fetch e \<lparr>http_method = GET,
             url = baseUrl s @ ''/Patient/'' @ fieldValue (document s) ''patientId'',
             body = None\<rparr> = Resolved r \<longrightarrow>
    status r = 404 \<longrightarrow>
      snd (getPatientById e s) = NotFound (fieldValue (document s) ''patientId''))"
  by (auto simp: getPatientById_def blank_def Let_def send_def ok_def
      split: response.splits option.splits)

text \<open>Fetching id 999 against a server that answers 404, with a patient selected.\<close>

theorem C8_fetch_keeps_selection_witness:
  "snd (getPatientById (exampleEnv (reply 404 None)) (editing (adaForm(''patientId'' \<mapsto> ''999''))))
     = NotFound ''999'' \<and>
   selectedPatient (fst (getPatientById (exampleEnv (reply 404 None))
     (editing (adaForm(''patientId'' \<mapsto> ''999''))))) = Some storedAda"
proof -
  let ?s = "editing (adaForm(''patientId'' \<mapsto> ''999''))"
  have i: "fieldValue (document ?s) ''patientId'' = ''999''"
    by (simp add: editing_def fieldValue_def)
  have nb: "\<not> blank (fieldValue (document ?s) ''patientId'')"
    unfolding i by (simp add: blank_def trim_def isSpace_def)
  have f: "fetch (exampleEnv (reply 404 None)) q = Resolved \<lparr>status = 404, statusText = [],
             body_text = Some [], body_json = None\<rparr>" for q
    by (simp add: exampleEnv_def reply_def)
  have sel: "selectedPatient ?s = Some storedAda"
    by (simp add: editing_def)
  from C8_fetch_keeps_selection [of "exampleEnv (reply 404 None)" ?s] nb f i sel
  show ?thesis by simp
qed

section \<open>The default base URL\<close>

text \<open>
  Claim C9 says that the stored base URL never keeps a trailing slash, its default value
  included, and is used verbatim in every request URL. The code strips the slash in
  \<^verbatim>\<open>updateServerUrl\<close> only: on a page without a server URL field (or with an empty
  one) the constructor leaves the default base URL in place, with its trailing slash, and
  the request of \<^verbatim>\<open>createPatient\<close> goes to a URL with a double slash.
\<close>

theorem C9_default_baseUrl_keeps_slash:
  "baseUrl (constructor adaForm) = ''https://fhir-bootcamp.medblocks.com/fhir/'' \<and>
   last (baseUrl (constructor adaForm)) = CHR ''/'' \<and>
   map url (sent (fst (createPatient (exampleEnv (Rejected ''offline'')) (constructor adaForm)))) =
     [''https://fhir-bootcamp.medblocks.com/fhir//Patient'']"
proof -
  have c: "constructor adaForm =
             \<lparr>baseUrl = ''https://fhir-bootcamp.medblocks.com/fhir/'', patients = [],
              selectedPatient = None, document = adaForm, sent = []\<rparr>"
    by (simp add: constructor_def init_def updateServerUrl_def adaForm_def)
  have b: "createPatientResource (exampleEnv (Rejected ''offline'')) adaForm =
            Inr (assemble ''Ada'' ''Lovelace'' ''female'' ''1815-12-10'' [] [] [])"
    by (simp add: createPatientResource_def exampleEnv_def adaForm_def fieldValue_def isoParser_def
      isoDate_ada trim_def isSpace_def msPerDay_def)
  show ?thesis
    unfolding c by (simp add: createPatient_def b Let_def send_def) (simp add: exampleEnv_def)
qed

section \<open>The standalone validator\<close>

text \<open>
  Claim C10. \<^verbatim>\<open>validatePatientResource\<close> reports the resource valid exactly when its list
  of errors is empty. The list holds every error that applies, in the order resource
  type, name, gender, birth date, none of them hiding another. The gender and birth date
  errors apply only to a property that is present and not empty, so a resource of type
  Patient with at least one name, no gender and no birth date is valid.
\<close>

theorem C10_validator:
  \<open>isValid (validatePatientResource p) = (errors (validatePatientResource p) = []) \<and>
   errors (validatePatientResource p) =
     (if resourceType p = Some ''Patient'' then [] else [''Resource type must be "Patient"'']) @
     (if name p = None \<or> name p = Some [] then [''Patient must have at least one name''] else []) @
     (if \<exists>g. gender p = Some g \<and> g \<noteq> [] \<and> g \<notin> {''male'', ''female'', ''other'', ''unknown''}
      then [''Invalid gender value''] else []) @
     (if \<exists>b. birthDate p = Some b \<and> b \<noteq> [] \<and> \<not> test birthDateRegex b
      then [''Birth date must be in YYYY-MM-DD format''] else []) \<and>
   (resourceType p = Some ''Patient'' \<longrightarrow> (\<exists>n ns. name p = Some (n # ns)) \<longrightarrow>
    gender p = None \<longrightarrow> birthDate p = None \<longrightarrow>
      isValid (validatePatientResource p) \<and> errors (validatePatientResource p) = [])\<close>
proof (intro conjI impI)
  show "isValid (validatePatientResource p) = (errors (validatePatientResource p) = [])"
    by (rule validator_isValid)
next
  show \<open>errors (validatePatientResource p) =
     (if resourceType p = Some ''Patient'' then [] else [''Resource type must be "Patient"'']) @
     (if name p = None \<or> name p = Some [] then [''Patient must have at least one name''] else []) @
     (if \<exists>g. gender p = Some g \<and> g \<noteq> [] \<and> g \<notin> {''male'', ''female'', ''other'', ''unknown''}
      then [''Invalid gender value''] else []) @
     (if \<exists>b. birthDate p = Some b \<and> b \<noteq> [] \<and> \<not> test birthDateRegex b
      then [''Birth date must be in YYYY-MM-DD format''] else [])\<close>
    by (rule validator_errors)
next
  assume a: "resourceType p = Some ''Patient''" "\<exists>n ns. name p = Some (n # ns)"
    "gender p = None" "birthDate p = None"
  then show e: "errors (validatePatientResource p) = []"
    unfolding validator_errors by auto
  then show "isValid (validatePatientResource p)"
    by (simp add: validator_isValid)
qed

text \<open>
  A stored patient stripped of gender and birth date is valid; one without a resource type
  and a name, with the gender \<^verbatim>\<open>x\<close> and the birth date \<^verbatim>\<open>1-1-1\<close>, gets all four errors
  in order.
\<close>

theorem C10_validator_witness:
  \<open>isValid (validatePatientResource (storedAda\<lparr>gender := None, birthDate := None\<rparr>)) \<and>
   errors (validatePatientResource (storedAda\<lparr>gender := None, birthDate := None\<rparr>)) = [] \<and>
   validatePatientResource
     (storedAda\<lparr>resourceType := None, name := Some [], gender := Some ''x'',
                 birthDate := Some ''1-1-1''\<rparr>) =
     \<lparr>isValid = False,
      errors = [''Resource type must be "Patient"'', ''Patient must have at least one name'',
                ''Invalid gender value'', ''Birth date must be in YYYY-MM-DD format'']\<rparr>\<close>
proof -
  let ?good = "storedAda\<lparr>gender := None, birthDate := None\<rparr>"
  let ?bad = "storedAda\<lparr>resourceType := None, name := Some [], gender := Some ''x'',
                 birthDate := Some ''1-1-1''\<rparr>"
  have g: "resourceType ?good = Some ''Patient''" "\<exists>n ns. name ?good = Some (n # ns)"
    "gender ?good = None" "birthDate ?good = None"
    by (simp_all add: storedAda_def)
  have t: "\<not> test birthDateRegex ''1-1-1''" by code_simp
  have b: "resourceType ?bad = None" "name ?bad = Some []" "gender ?bad = Some ''x''"
    "birthDate ?bad = Some ''1-1-1''"
    by simp_all
  from C10_validator [of ?good] g
  have 1: "isValid (validatePatientResource ?good) \<and> errors (validatePatientResource ?good) = []"
    by blast
  from C10_validator [of ?bad]
  have 2: \<open>errors (validatePatientResource ?bad) =
             [''Resource type must be "Patient"'', ''Patient must have at least one name'',
              ''Invalid gender value'', ''Birth date must be in YYYY-MM-DD format'']\<close>
    and 3: "isValid (validatePatientResource ?bad) = (errors (validatePatientResource ?bad) = [])"
    unfolding b using t by simp_all
  have "validatePatientResource ?bad = \<lparr>isValid = isValid (validatePatientResource ?bad),
          errors = errors (validatePatientResource ?bad)\<rparr>"
    by simp
  with 1 2 3 show ?thesis by simp
qed

end
